theory Spec2Isabelle
  imports Complex_Main
begin

section \<open>Values, errors and the external collaborators\<close>

text \<open>
  The fields of \<^verbatim>\<open>django_rest_form_fields/fields.py\<close> take an untyped raw value and
  return a cleaned value or raise.  Raw and cleaned values are Python objects; the ones the
  fields distinguish are the constructors of \<open>pyval\<close>.

  \<^item> A \<open>float\<close> is kept by its exact rational value (every finite double is a rational).
    Where Python rounds the result of an arithmetic operation to a double, the model applies
    the rounding function \<open>rnd\<close> of the environment; infinities and NaN are not values of
    the model.
  \<^item> A \<open>datetime\<close> is kept as the reading of its calendar and clock fields in
    microseconds since 1970-01-01T00:00:00, together with its UTC offset in seconds
    (\<open>None\<close> for a naive datetime); a \<open>date\<close> as days since 1970-01-01.
  \<^item> A file handle is kept by the two attributes the fields read: its name and its size.
  \<^item> A set is kept as the list of its distinct elements.
  \<^item> Strings are lists of 8-bit characters; case mapping and white space are the ASCII ones.
\<close>

datatype pyval =
    PyNone
  | PyBool bool
  | PyInt int
  | PyFloat rat
  | PyStr string
  | PyList "pyval list"
  | PyDict "(string \<times> pyval) list"
  | PySet "pyval list"
  | PyDatetime int "int option"
  | PyDate int
  | PyFile string int

text \<open>
  Every \<^verbatim>\<open>raise\<close> is a value.  \<open>Errors\<close> is the \<^verbatim>\<open>ValidationError\<close> that
  \<^verbatim>\<open>Field.run_validators\<close> raises from the list of the validators' errors.
  \<open>PyTypeError\<close>, \<open>PyValueError\<close> and \<open>AssertionError\<close> are the Python exceptions
  that are not \<^verbatim>\<open>ValidationError\<close>s.

  Modelled from the spec: \<^verbatim>\<open>exceptions.py\<close> (\<open>FileTypeError\<close>, \<open>FileSizeError\<close>)
  is not among the sources; the file-type error carries the actual extension and the allowed
  set, the file-size error carries the limit and the actual size, in the order of the
  constructor calls in \<^verbatim>\<open>FileField.validate\<close>.
\<close>

datatype error =
    Required
  | Invalid
  | MaxValueError rat rat
  | MinValueError rat rat
  | NullCharacters
  | Errors "error list"
  | RegexMismatch
  | InvalidChoice pyval
  | FutureValue
  | InvalidFormat string
  | InvalidTimezone string
  | InvalidColor string
  | JsonNotParsed
  | InvalidJsonValue pyval
  | SchemaViolation string
  | ArrayNotObject
  | ArrayOfIntegers
  | InvalidUrl
  | InvalidEmail
  | InvalidHex
  | FileTypeError string "string list"
  | FileSizeError int int
  | FileEmpty
  | PyTypeError
  | PyValueError
  | AssertionError

type_synonym 'a res = "error + 'a"

text \<open>
  What the fields consult outside this package: the clock, the arithmetic of doubles, the
  \<^verbatim>\<open>str\<close> of objects that are not strings or integers, the \<^verbatim>\<open>float\<close> parser,
  \<^verbatim>\<open>json.loads\<close>, \<^verbatim>\<open>jsonschema.validate\<close> (its result is the message of the
  error it raises), \<^verbatim>\<open>datetime.strptime\<close> (its arguments are the string and the
  mask), \<^verbatim>\<open>pytz.all_timezones\<close>, Django's URL validators (the argument says whether
  underscores are accepted in the domain) and e-mail validator, and the setting
  \<^verbatim>\<open>ID_FIELD_MAX_VALUE\<close>.
\<close>

record env =
  now_us :: int
  rnd :: "rat \<Rightarrow> rat"
  str_of :: "pyval \<Rightarrow> string"
  float_of_str :: "string \<Rightarrow> rat option"
  json_loads :: "string \<Rightarrow> pyval option"
  jsonschema_validate :: "pyval \<Rightarrow> pyval \<Rightarrow> string option"
  strptime :: "string \<Rightarrow> string \<Rightarrow> (int \<times> int option) option"
  all_timezones :: "string list"
  url_validator :: "bool \<Rightarrow> string \<Rightarrow> bool"
  email_validator :: "pyval \<Rightarrow> bool"
  ID_FIELD_MAX_VALUE :: "rat option"

section \<open>Python built-ins\<close>

subsection \<open>Strings\<close>

definition py_isspace :: "char \<Rightarrow> bool" where
  "py_isspace c = (let n = (of_char c :: nat) in (9 \<le> n \<and> n \<le> 13) \<or> (28 \<le> n \<and> n \<le> 32))"

definition py_strip :: "string \<Rightarrow> string" where
  "py_strip s = rev (dropWhile py_isspace (rev (dropWhile py_isspace s)))"

definition lower_char :: "char \<Rightarrow> char" where
  "lower_char c = (let n = (of_char c :: nat) in if 65 \<le> n \<and> n \<le> 90 then char_of (n + 32) else c)"

definition py_lower :: "string \<Rightarrow> string" where
  "py_lower s = map lower_char s"

fun startswith :: "string \<Rightarrow> string \<Rightarrow> bool" where
  "startswith s [] = True"
| "startswith [] (p # ps) = False"
| "startswith (c # cs) (p # ps) = (c = p \<and> startswith cs ps)"

definition endswith :: "string \<Rightarrow> string \<Rightarrow> bool" where
  "endswith s p = startswith (rev s) (rev p)"

text \<open>\<^verbatim>\<open>s.split(',')\<close>: the pieces between the commas; an empty string gives one empty piece.\<close>

fun split_on :: "char \<Rightarrow> string \<Rightarrow> string list" where
  "split_on d [] = [[]]"
| "split_on d (c # cs) =
     (if c = d then [] # split_on d cs
      else (case split_on d cs of [] \<Rightarrow> [[c]] | p # ps \<Rightarrow> (c # p) # ps))"

text \<open>
  \<^verbatim>\<open>os.path.splitext(p)[1]\<close> (\<^verbatim>\<open>genericpath._splitext\<close> with separator \<^verbatim>\<open>/\<close>):
  the extension starts at the last dot of the last path component, unless only dots come
  before it in that component.
\<close>

definition splitext_ext :: "string \<Rightarrow> string" where
  "splitext_ext p =
     (let base = rev (takeWhile (\<lambda>c. c \<noteq> CHR ''/'') (rev p));
          ext = rev (takeWhile (\<lambda>c. c \<noteq> CHR ''.'') (rev base));
          root = take (length base - length ext - 1) base
      in if CHR ''.'' \<in> set base \<and> list_ex (\<lambda>c. c \<noteq> CHR ''.'') root then CHR ''.'' # ext else [])"

subsection \<open>Integers and their decimal form\<close>

definition is_digit :: "char \<Rightarrow> bool" where
  "is_digit c = (let n = (of_char c :: nat) in 48 \<le> n \<and> n \<le> 57)"

definition digit_val :: "char \<Rightarrow> nat" where
  "digit_val c = of_char c - 48"

definition digit_char :: "nat \<Rightarrow> char" where
  "digit_char d = char_of (48 + d)"

fun nat_digits :: "nat \<Rightarrow> string" where
  "nat_digits n = (if n < 10 then [digit_char n] else nat_digits (n div 10) @ [digit_char (n mod 10)])"

declare nat_digits.simps [simp del]

text \<open>\<^verbatim>\<open>str(n)\<close> of an integer.\<close>

definition str_of_int :: "int \<Rightarrow> string" where
  "str_of_int i = (if i < 0 then CHR ''-'' # nat_digits (nat (- i)) else nat_digits (nat i))"

text \<open>
  \<^verbatim>\<open>int(s)\<close> of a string: white space around it is dropped, a sign may come first, and
  the digits may be grouped by single underscores.  \<open>None\<close> is \<^verbatim>\<open>ValueError\<close>.
\<close>

fun parse_digits :: "string \<Rightarrow> nat \<Rightarrow> nat option" where
  "parse_digits [] acc = Some acc"
| "parse_digits (c # cs) acc =
     (if is_digit c then parse_digits cs (10 * acc + digit_val c)
      else if c = CHR ''_'' then
        (case cs of [] \<Rightarrow> None
         | d # ds \<Rightarrow> if is_digit d then parse_digits cs acc else None)
      else None)"

definition parse_unsigned :: "string \<Rightarrow> nat option" where
  "parse_unsigned ds = (case ds of [] \<Rightarrow> None | c # cs \<Rightarrow> if is_digit c then parse_digits ds 0 else None)"

definition py_int_of_str :: "string \<Rightarrow> int option" where
  "py_int_of_str s =
     (case py_strip s of
        [] \<Rightarrow> None
      | c # cs \<Rightarrow>
          if c = CHR ''-'' then map_option (\<lambda>n. - int n) (parse_unsigned cs)
          else if c = CHR ''+'' then map_option int (parse_unsigned cs)
          else map_option int (parse_unsigned (c # cs)))"

subsection \<open>Truth, equality, \<^verbatim>\<open>str\<close>\<close>

text \<open>\<^verbatim>\<open>bool(v)\<close>.  A file handle is Django's \<^verbatim>\<open>File\<close>, which is true when it has a name.\<close>

fun py_bool :: "pyval \<Rightarrow> bool" where
  "py_bool PyNone = False"
| "py_bool (PyBool b) = b"
| "py_bool (PyInt n) = (n \<noteq> 0)"
| "py_bool (PyFloat x) = (x \<noteq> 0)"
| "py_bool (PyStr s) = (s \<noteq> [])"
| "py_bool (PyList xs) = (xs \<noteq> [])"
| "py_bool (PyDict kvs) = (kvs \<noteq> [])"
| "py_bool (PySet xs) = (xs \<noteq> [])"
| "py_bool (PyDatetime t z) = True"
| "py_bool (PyDate d) = True"
| "py_bool (PyFile n s) = (n \<noteq> [])"

text \<open>The value of a number (\<^verbatim>\<open>bool\<close> is a subclass of \<^verbatim>\<open>int\<close>).\<close>

fun num_of :: "pyval \<Rightarrow> rat option" where
  "num_of (PyBool b) = Some (if b then 1 else 0)"
| "num_of (PyInt n) = Some (of_int n)"
| "num_of (PyFloat x) = Some x"
| "num_of v = None"

text \<open>\<^verbatim>\<open>a == b\<close>: numbers compare by value, everything else by structure.\<close>

definition py_eq :: "pyval \<Rightarrow> pyval \<Rightarrow> bool" where
  "py_eq a b = (case (num_of a, num_of b) of (Some x, Some y) \<Rightarrow> x = y | _ \<Rightarrow> a = b)"

text \<open>\<^verbatim>\<open>str(v)\<close>; the environment gives it for floats, containers, dates and files.\<close>

definition py_str :: "env \<Rightarrow> pyval \<Rightarrow> string" where
  "py_str e v =
     (case v of
        PyStr s \<Rightarrow> s
      | PyNone \<Rightarrow> ''None''
      | PyBool b \<Rightarrow> (if b then ''True'' else ''False'')
      | PyInt n \<Rightarrow> str_of_int n
      | _ \<Rightarrow> str_of e v)"

subsection \<open>Regular expressions\<close>

text \<open>
  The patterns of this package, as \<^verbatim>\<open>re\<close> compiles them: \<open>Bol\<close> is \<^verbatim>\<open>^\<close>, \<open>Eol\<close> is
  \<^verbatim>\<open>$\<close> (the end of the string, or just before a newline that ends it), \<open>Dot\<close> is
  \<^verbatim>\<open>.\<close>, \<open>Cls\<close> a character class given by its ranges, \<open>Times n r\<close> is \<^verbatim>\<open>r{n}\<close> and
  \<open>Star r\<close> the greedy \<^verbatim>\<open>r*\<close>.  A matcher state is the number of characters consumed and
  the rest of the string; \<open>rmatch\<close> lists the states a backtracking matcher reaches, in
  the order it tries them.  The only flag modelled is \<^verbatim>\<open>re.IGNORECASE\<close> (2).
\<close>

datatype pattern =
    Bol
  | Eol
  | Dot
  | Chr char
  | Cls "(char \<times> char) list"
  | Seq pattern pattern
  | Times nat pattern
  | Star pattern

type_synonym mstate = "nat \<times> string"

definition upper_char :: "char \<Rightarrow> char" where
  "upper_char c = (let n = (of_char c :: nat) in if 97 \<le> n \<and> n \<le> 122 then char_of (n - 32) else c)"

definition in_ranges :: "(char \<times> char) list \<Rightarrow> char \<Rightarrow> bool" where
  "in_ranges rs c = list_ex (\<lambda>(lo, hi). (of_char lo :: nat) \<le> of_char c \<and> (of_char c :: nat) \<le> of_char hi) rs"

definition cls_match :: "bool \<Rightarrow> (char \<times> char) list \<Rightarrow> char \<Rightarrow> bool" where
  "cls_match ic rs c = (in_ranges rs c \<or> (ic \<and> (in_ranges rs (lower_char c) \<or> in_ranges rs (upper_char c))))"

definition step_char :: "(char \<Rightarrow> bool) \<Rightarrow> mstate \<Rightarrow> mstate list" where
  "step_char p st = (case snd st of [] \<Rightarrow> [] | c # cs \<Rightarrow> if p c then [(Suc (fst st), cs)] else [])"

primrec iter_seq :: "nat \<Rightarrow> (mstate \<Rightarrow> mstate list) \<Rightarrow> mstate \<Rightarrow> mstate list" where
  "iter_seq 0 f st = [st]"
| "iter_seq (Suc k) f st = concat (map (iter_seq k f) (f st))"

primrec star_iter :: "nat \<Rightarrow> (mstate \<Rightarrow> mstate list) \<Rightarrow> mstate \<Rightarrow> mstate list" where
  "star_iter 0 f st = [st]"
| "star_iter (Suc k) f st =
     concat (map (\<lambda>st'. if length (snd st') < length (snd st) then star_iter k f st' else []) (f st)) @ [st]"

primrec rmatch :: "bool \<Rightarrow> pattern \<Rightarrow> mstate \<Rightarrow> mstate list" where
  "rmatch ic Bol = (\<lambda>st. if fst st = 0 then [st] else [])"
| "rmatch ic Eol = (\<lambda>st. if snd st = [] \<or> snd st = [CHR 0x0A] then [st] else [])"
| "rmatch ic Dot = step_char (\<lambda>c. c \<noteq> CHR 0x0A)"
| "rmatch ic (Chr x) = step_char (\<lambda>c. c = x \<or> (ic \<and> lower_char c = lower_char x))"
| "rmatch ic (Cls rs) = step_char (cls_match ic rs)"
| "rmatch ic (Seq r1 r2) = (\<lambda>st. concat (map (rmatch ic r2) (rmatch ic r1 st)))"
| "rmatch ic (Times n r) = iter_seq n (rmatch ic r)"
| "rmatch ic (Star r) = (\<lambda>st. star_iter (length (snd st)) (rmatch ic r) st)"

text \<open>\<^verbatim>\<open>re.match(pattern, s, flags)\<close>: the match object is kept by the text it matched.\<close>

definition re_match :: "pattern \<Rightarrow> string \<Rightarrow> int \<Rightarrow> string option" where
  "re_match r s fl =
     (case rmatch (fl div 2 mod 2 = 1) r (0, s) of [] \<Rightarrow> None | st # _ \<Rightarrow> Some (take (fst st) s))"

section \<open>Dates and times\<close>

text \<open>The proleptic Gregorian ordinal of a date, as \<^verbatim>\<open>datetime\<close> computes it.\<close>

definition is_leap :: "int \<Rightarrow> bool" where
  "is_leap y = (y mod 4 = 0 \<and> (y mod 100 \<noteq> 0 \<or> y mod 400 = 0))"

definition days_before_year :: "int \<Rightarrow> int" where
  "days_before_year year = (let y = year - 1 in y * 365 + y div 4 - y div 100 + y div 400)"

definition days_before_month :: "int \<Rightarrow> int \<Rightarrow> int" where
  "days_before_month year month =
     [0, 31, 59, 90, 120, 151, 181, 212, 243, 273, 304, 334] ! nat ((month - 1) mod 12)
       + (if month > 2 \<and> is_leap year then 1 else 0)"

definition ymd2ord :: "int \<Rightarrow> int \<Rightarrow> int \<Rightarrow> int" where
  "ymd2ord year month day = days_before_year year + days_before_month year month + day"

text \<open>\<^verbatim>\<open>datetime(year, month, day, hour, minute, second, microsecond, tzinfo)\<close>.\<close>

definition datetime :: "int \<Rightarrow> int \<Rightarrow> int \<Rightarrow> int \<Rightarrow> int \<Rightarrow> int \<Rightarrow> int \<Rightarrow> int option \<Rightarrow> pyval" where
  "datetime year month day hh mm ss us tz =
     PyDatetime (((((ymd2ord year month day - ymd2ord 1970 1 1) * 24 + hh) * 60 + mm) * 60 + ss) * 1000000 + us) tz"

definition utc :: "int option" where
  "utc = Some 0"

text \<open>
  \<^verbatim>\<open>to_timestamp\<close> of \<^verbatim>\<open>compatibility.py\<close>: a naive datetime is taken as UTC, an aware
  one is moved to UTC; \<^verbatim>\<open>dt.timestamp()\<close> is then the quotient
  \<^verbatim>\<open>microseconds / 10**6\<close>, rounded to a double.
\<close>

definition to_timestamp :: "env \<Rightarrow> int \<Rightarrow> int option \<Rightarrow> rat" where
  "to_timestamp e t tz =
     (let u = (case tz of None \<Rightarrow> t | Some off \<Rightarrow> t - off * 1000000)
      in rnd e (of_int u / 1000000))"

text \<open>\<^verbatim>\<open>round\<close> of a double: to the nearest integer, a tie to the even one.\<close>

definition round_half_even :: "rat \<Rightarrow> int" where
  "round_half_even x =
     (let f = \<lfloor>x\<rfloor>; d = x - of_int f
      in if d < 1 / 2 then f else if 1 / 2 < d then f + 1 else if even f then f else f + 1)"

text \<open>
  \<^verbatim>\<open>datetime.utcfromtimestamp(x)\<close>: \<^verbatim>\<open>math.modf\<close> splits \<open>x\<close> exactly, the fraction
  times \<^verbatim>\<open>1e6\<close> is a double product, rounded to microseconds with a carry into the
  seconds.  The result is naive; outside the years 1 to 9999 it is a \<^verbatim>\<open>ValueError\<close>.
\<close>

definition utcfromtimestamp :: "env \<Rightarrow> rat \<Rightarrow> int res" where
  "utcfromtimestamp e x =
     (let t = (if 0 \<le> x then \<lfloor>x\<rfloor> else \<lceil>x\<rceil>);
          frac = x - of_int t;
          us = round_half_even (rnd e (frac * 1000000));
          r = (if 1000000 \<le> us then (t + 1) * 1000000 + (us - 1000000)
               else if us < 0 then (t - 1) * 1000000 + (us + 1000000)
               else t * 1000000 + us)
      in if (1 - ymd2ord 1970 1 1) * 86400000000 \<le> r \<and> r < (ymd2ord 9999 12 31 + 1 - ymd2ord 1970 1 1) * 86400000000
         then Inr r else Inl PyValueError)"

text \<open>\<^verbatim>\<open>float(v)\<close> of a number.\<close>

definition float_of :: "env \<Rightarrow> pyval \<Rightarrow> rat option" where
  "float_of e v =
     (case v of
        PyFloat x \<Rightarrow> Some x
      | PyInt n \<Rightarrow> Some (rnd e (of_int n))
      | PyBool b \<Rightarrow> Some (if b then 1 else 0)
      | _ \<Rightarrow> None)"

text \<open>Django's \<^verbatim>\<open>make_aware(dt, tz)\<close>: a datetime that is aware already is a \<^verbatim>\<open>ValueError\<close>.\<close>

definition make_aware :: "pyval \<Rightarrow> int option \<Rightarrow> pyval res" where
  "make_aware dt tz = (case dt of PyDatetime t None \<Rightarrow> Inr (PyDatetime t tz) | _ \<Rightarrow> Inl PyValueError)"

text \<open>\<^verbatim>\<open>dt.date()\<close>.\<close>

definition date_of :: "int \<Rightarrow> pyval" where
  "date_of t = PyDate (t div 86400000000)"

section \<open>Field definitions\<close>

datatype kind =
    RestCharField | RegexField | RestChoiceField | RestIntegerField | RestFloatField
  | PositiveIntegerField | IdField | TimestampField | DateTimeField | DateField | MonthField
  | TimezoneField | DateUnitField | RestBooleanField | LowerCaseEmailField | ColorField
  | TruncatedCharField | JsonField | ArrayField | IdArrayField | IdSetField | UrlField
  | HexField | UUIDField | FileField

text \<open>
  A field object: its class and the attributes the methods read.  \<open>last_match\<close> is the
  attribute \<^verbatim>\<open>_match\<close> of a \<^verbatim>\<open>RegexField\<close>, the only one a method assigns after
  construction.  The options of Django's own field classes that this package only passes
  on (\<^verbatim>\<open>min_length\<close>, \<^verbatim>\<open>max_length\<close>, \<^verbatim>\<open>strip\<close>, \<^verbatim>\<open>empty_value\<close>,
  \<^verbatim>\<open>allow_empty_file\<close>, \<^verbatim>\<open>localize\<close>, \<^verbatim>\<open>validators\<close>) have their defaults.
\<close>

record field =
  kind :: kind
  required :: bool
  initial :: pyval
  min_value :: "rat option"
  max_value :: "rat option"
  regex :: "pattern option"
  flags :: int
  last_match :: "string option"
  choices :: "(pyval \<times> pyval) list"
  in_future :: bool
  mask :: string
  truncate_length :: "nat option"
  json_schema :: pyval
  with_underscore_domain :: bool
  valid_extensions :: "string list option"
  max_size :: "int option"

text \<open>
  The keyword arguments of the constructors.  An argument whose default depends on the
  class, or whose presence is tested, is optional here: \<open>None\<close> is "not passed".
\<close>

datatype choice = Bare pyval | Pair pyval pyval

record kwargs =
  kw_required :: bool
  kw_initial :: "pyval option"
  kw_min_value :: "rat option option"
  kw_max_value :: "rat option option"
  kw_with_zero :: "bool option"
  kw_in_future :: bool
  kw_regex :: "pattern option"
  kw_flags :: int
  kw_choices :: "choice list option"
  kw_mask :: "string option"
  kw_truncate_length :: "int option"
  kw_json_schema :: pyval
  kw_item_schema :: pyval
  kw_min_items :: pyval
  kw_max_items :: pyval
  kw_with_underscore_domain :: bool
  kw_valid_extensions :: "string list option"
  kw_max_size :: "int option"

text \<open>No argument passed: every default of the signatures.\<close>

definition no_kwargs :: kwargs where
  "no_kwargs = \<lparr> kw_required = True, kw_initial = None, kw_min_value = None, kw_max_value = None,
     kw_with_zero = None, kw_in_future = True, kw_regex = None, kw_flags = 0, kw_choices = None,
     kw_mask = None, kw_truncate_length = Some 255, kw_json_schema = PyNone, kw_item_schema = PyNone,
     kw_min_items = PyInt 0, kw_max_items = PyNone, kw_with_underscore_domain = True,
     kw_valid_extensions = None, kw_max_size = None \<rparr>"

text \<open>\<^verbatim>\<open>forms.Field.__init__\<close>: \<^verbatim>\<open>required\<close> and \<^verbatim>\<open>initial\<close>; nothing else is set.\<close>

definition Field_init :: "kind \<Rightarrow> kwargs \<Rightarrow> field" where
  "Field_init k kw = \<lparr> kind = k, required = kw_required kw,
     initial = (case kw_initial kw of None \<Rightarrow> PyNone | Some i \<Rightarrow> i),
     min_value = None, max_value = None, regex = None, flags = 0, last_match = None, choices = [],
     in_future = True, mask = [], truncate_length = None, json_schema = PyNone,
     with_underscore_domain = True, valid_extensions = None, max_size = None \<rparr>"

text \<open>\<^verbatim>\<open>forms.IntegerField.__init__\<close> keeps the bounds.\<close>

definition IntegerField_init :: "kind \<Rightarrow> kwargs \<Rightarrow> field" where
  "IntegerField_init k kw = (Field_init k kw)
     \<lparr> min_value := (case kw_min_value kw of None \<Rightarrow> None | Some b \<Rightarrow> b),
       max_value := (case kw_max_value kw of None \<Rightarrow> None | Some b \<Rightarrow> b) \<rparr>"

definition PositiveIntegerField_init :: "kind \<Rightarrow> kwargs \<Rightarrow> field" where
  "PositiveIntegerField_init k kw =
     (let with_zero = (case kw_with_zero kw of None \<Rightarrow> False | Some z \<Rightarrow> z);
          mn = (case kw_min_value kw of None \<Rightarrow> Some (if with_zero then 0 else 1) | Some b \<Rightarrow> b)
      in IntegerField_init k (kw\<lparr>kw_min_value := Some mn\<rparr>))"

definition IdField_init :: "env \<Rightarrow> kind \<Rightarrow> kwargs \<Rightarrow> field" where
  "IdField_init e k kw =
     (let kw1 = kw\<lparr>kw_with_zero := Some (case kw_with_zero kw of None \<Rightarrow> False | Some z \<Rightarrow> z)\<rparr>;
          kw2 = (case ID_FIELD_MAX_VALUE e of
                   None \<Rightarrow> kw1
                 | Some m \<Rightarrow> kw1\<lparr>kw_max_value := Some (case kw_max_value kw of None \<Rightarrow> Some m | Some b \<Rightarrow> b)\<rparr>)
      in PositiveIntegerField_init k kw2)"

definition TimestampField_init :: "env \<Rightarrow> kwargs \<Rightarrow> field res" where
  "TimestampField_init e kw =
     (case kw_initial kw of
        None \<Rightarrow>
          Inr ((IntegerField_init TimestampField (kw\<lparr>kw_min_value := Some (Some 0), kw_max_value := Some (Some 2147483647)\<rparr>))
                 \<lparr>in_future := kw_in_future kw\<rparr>)
      | Some i \<Rightarrow>
          (case i of
             PyDatetime t tz \<Rightarrow>
               Inr ((IntegerField_init TimestampField
                       (kw\<lparr>kw_initial := Some (PyFloat (to_timestamp e t tz)),
                           kw_min_value := Some (Some 0), kw_max_value := Some (Some 2147483647)\<rparr>))
                      \<lparr>in_future := kw_in_future kw\<rparr>)
           | _ \<Rightarrow>
               if num_of i = None then Inl AssertionError
               else Inr ((IntegerField_init TimestampField
                            (kw\<lparr>kw_min_value := Some (Some 0), kw_max_value := Some (Some 2147483647)\<rparr>))
                           \<lparr>in_future := kw_in_future kw\<rparr>)))"

definition RegexField_init :: "kind \<Rightarrow> kwargs \<Rightarrow> field" where
  "RegexField_init k kw = (Field_init k kw)\<lparr>regex := kw_regex kw, flags := kw_flags kw, last_match := None\<rparr>"

definition hex_lower :: "(char \<times> char) list" where
  "hex_lower = [(CHR ''0'', CHR ''9''), (CHR ''a'', CHR ''f'')]"

text \<open>\<^verbatim>\<open>^[0-9a-f]{8}-[0-9a-f]{4}-[0-9a-f]{4}-[0-9a-f]{4}-[0-9a-f]{12}$\<close>\<close>

definition uuid_regex :: pattern where
  "uuid_regex =
     Seq Bol (Seq (Times 8 (Cls hex_lower)) (Seq (Chr CHR ''-'')
       (Seq (Times 4 (Cls hex_lower)) (Seq (Chr CHR ''-'')
       (Seq (Times 4 (Cls hex_lower)) (Seq (Chr CHR ''-'')
       (Seq (Times 4 (Cls hex_lower)) (Seq (Chr CHR ''-'')
       (Seq (Times 12 (Cls hex_lower)) Eol)))))))))"

definition UUIDField_init :: "kwargs \<Rightarrow> field" where
  "UUIDField_init kw = RegexField_init UUIDField (kw\<lparr>kw_regex := Some uuid_regex\<rparr>)"

definition UrlField_init :: "kwargs \<Rightarrow> field" where
  "UrlField_init kw = (RegexField_init UrlField kw)\<lparr>with_underscore_domain := kw_with_underscore_domain kw\<rparr>"

definition RestChoiceField_init :: "kind \<Rightarrow> kwargs \<Rightarrow> field" where
  "RestChoiceField_init k kw = (Field_init k kw)
     \<lparr>choices := (case kw_choices kw of
                    None \<Rightarrow> []
                  | Some chs \<Rightarrow> map (\<lambda>ch. case ch of Pair a b \<Rightarrow> (a, b) | Bare a \<Rightarrow> (a, a)) chs)\<rparr>"

definition UNIT_CHOICES :: "choice list" where
  "UNIT_CHOICES = [Bare (PyStr ''hour''), Bare (PyStr ''day''), Bare (PyStr ''week'')]"

definition DateUnitField_init :: "kwargs \<Rightarrow> field" where
  "DateUnitField_init kw = RestChoiceField_init DateUnitField (kw\<lparr>kw_choices := Some UNIT_CHOICES\<rparr>)"

definition DateTimeField_init :: "kind \<Rightarrow> string \<Rightarrow> kwargs \<Rightarrow> field" where
  "DateTimeField_init k default_mask kw =
     (Field_init k kw)\<lparr>mask := (case kw_mask kw of None \<Rightarrow> default_mask | Some m \<Rightarrow> m)\<rparr>"

definition TruncatedCharField_init :: "kwargs \<Rightarrow> field res" where
  "TruncatedCharField_init kw =
     (case kw_truncate_length kw of
        None \<Rightarrow> Inr (Field_init TruncatedCharField kw)
      | Some n \<Rightarrow> if 0 < n then Inr ((Field_init TruncatedCharField kw)\<lparr>truncate_length := Some (nat n)\<rparr>)
                  else Inl AssertionError)"

definition JsonField_init :: "kind \<Rightarrow> kwargs \<Rightarrow> field" where
  "JsonField_init k kw = (Field_init k kw)\<lparr>json_schema := kw_json_schema kw\<rparr>"

definition ArrayField_init :: "kind \<Rightarrow> kwargs \<Rightarrow> field" where
  "ArrayField_init k kw =
     (let s0 = [(''type'', PyStr ''array''), (''minItems'', kw_min_items kw)];
          s1 = (if py_bool (kw_max_items kw) then s0 @ [(''maxItems'', kw_max_items kw)] else s0);
          s2 = (if py_bool (kw_item_schema kw) then s1 @ [(''items'', kw_item_schema kw)] else s1)
      in JsonField_init k (kw\<lparr>kw_json_schema := PyDict s2\<rparr>))"

definition FileField_init :: "kwargs \<Rightarrow> field res" where
  "FileField_init kw =
     (if kw_valid_extensions kw = Some [] then Inl AssertionError
      else if (case kw_max_size kw of None \<Rightarrow> False | Some n \<Rightarrow> n \<le> 0) then Inl AssertionError
      else Inr ((Field_init FileField kw)\<lparr>valid_extensions := kw_valid_extensions kw, max_size := kw_max_size kw\<rparr>))"

section \<open>Django's form fields\<close>

text \<open>
  The classes of \<^verbatim>\<open>django.forms\<close> this package inherits from, as far as \<^verbatim>\<open>clean\<close>
  runs them.  \<^verbatim>\<open>EmptyStringFixMixing\<close> replaces the class attribute
  \<^verbatim>\<open>empty_values\<close> by \<^verbatim>\<open>[None]\<close>; the integer, float, e-mail and file fields keep
  Django's list.
\<close>

definition esfm :: "kind \<Rightarrow> bool" where
  "esfm k = (k \<notin> {RestIntegerField, RestFloatField, PositiveIntegerField, IdField, TimestampField,
                   LowerCaseEmailField, FileField})"

definition empty_values :: "field \<Rightarrow> pyval list" where
  "empty_values f = (if esfm (kind f) then [PyNone] else [PyNone, PyStr [], PyList [], PyDict []])"

text \<open>\<^verbatim>\<open>value in self.empty_values\<close>\<close>

definition in_empty_values :: "field \<Rightarrow> pyval \<Rightarrow> bool" where
  "in_empty_values f v = list_ex (py_eq v) (empty_values f)"

definition Field_validate :: "field \<Rightarrow> pyval \<Rightarrow> unit res" where
  "Field_validate f v = (if in_empty_values f v \<and> required f then Inl Required else Inr ())"

datatype validator =
    MaxValueValidator rat
  | MinValueValidator rat
  | ProhibitNullCharactersValidator
  | EmailValidator

text \<open>
  \<^verbatim>\<open>self.validators\<close>: the integer and float fields append the maximum, then the minimum;
  a \<^verbatim>\<open>CharField\<close> appends the null-character validator; the e-mail field has the
  e-mail validator first; choice and file fields have none.
\<close>

definition validators :: "field \<Rightarrow> validator list" where
  "validators f =
     (if kind f \<in> {RestIntegerField, RestFloatField, PositiveIntegerField, IdField, TimestampField} then
        (case max_value f of None \<Rightarrow> [] | Some m \<Rightarrow> [MaxValueValidator m])
        @ (case min_value f of None \<Rightarrow> [] | Some m \<Rightarrow> [MinValueValidator m])
      else if kind f \<in> {RestChoiceField, DateUnitField, FileField} then []
      else if kind f = LowerCaseEmailField then [EmailValidator, ProhibitNullCharactersValidator]
      else [ProhibitNullCharactersValidator])"

text \<open>One validator on a value: the errors it raises.\<close>

definition run_validator :: "env \<Rightarrow> validator \<Rightarrow> pyval \<Rightarrow> error list" where
  "run_validator e val v =
     (case val of
        MaxValueValidator m \<Rightarrow>
          (case num_of v of None \<Rightarrow> [PyTypeError] | Some x \<Rightarrow> if m < x then [MaxValueError m x] else [])
      | MinValueValidator m \<Rightarrow>
          (case num_of v of None \<Rightarrow> [PyTypeError] | Some x \<Rightarrow> if x < m then [MinValueError m x] else [])
      | ProhibitNullCharactersValidator \<Rightarrow> (if CHR 0x00 \<in> set (py_str e v) then [NullCharacters] else [])
      | EmailValidator \<Rightarrow> (if email_validator e v then [] else [InvalidEmail]))"

definition Field_run_validators :: "env \<Rightarrow> field \<Rightarrow> pyval \<Rightarrow> unit res" where
  "Field_run_validators e f v =
     (if in_empty_values f v then Inr ()
      else (let errors = concat (map (\<lambda>val. run_validator e val v) (validators f))
            in if errors \<noteq> [] then Inl (Errors errors) else Inr ()))"

text \<open>\<^verbatim>\<open>CharField.to_python\<close> with \<^verbatim>\<open>strip=True\<close> and the empty string as \<^verbatim>\<open>empty_value\<close>.\<close>

definition CharField_to_python :: "env \<Rightarrow> field \<Rightarrow> pyval \<Rightarrow> pyval" where
  "CharField_to_python e f v =
     (let v1 = (if \<not> in_empty_values f v then PyStr (py_strip (py_str e v)) else v)
      in if in_empty_values f v1 then PyStr [] else v1)"

definition ChoiceField_to_python :: "env \<Rightarrow> field \<Rightarrow> pyval \<Rightarrow> pyval" where
  "ChoiceField_to_python e f v = (if in_empty_values f v then PyStr [] else PyStr (py_str e v))"

text \<open>
  \<^verbatim>\<open>ChoiceField.valid_value\<close>: a choice whose second component is a list is a group of
  choices.
\<close>

definition valid_value :: "env \<Rightarrow> field \<Rightarrow> pyval \<Rightarrow> bool" where
  "valid_value e f v =
     (let text_value = py_str e v;
          hit = (\<lambda>k. py_eq v k \<or> text_value = py_str e k)
      in list_ex (\<lambda>(k, lbl).
            (case lbl of
               PyList grp \<Rightarrow> list_ex (\<lambda>kv. case kv of PyList (k2 # _) \<Rightarrow> hit k2 | _ \<Rightarrow> False) grp
             | _ \<Rightarrow> hit k)) (choices f))"

definition ChoiceField_validate :: "env \<Rightarrow> field \<Rightarrow> pyval \<Rightarrow> unit res" where
  "ChoiceField_validate e f v =
     (case Field_validate f v of
        Inl err \<Rightarrow> Inl err
      | Inr _ \<Rightarrow> if py_bool v \<and> \<not> valid_value e f v then Inl (InvalidChoice v) else Inr ())"

text \<open>\<^verbatim>\<open>\.0*\s*$\<close> removed from the \<^verbatim>\<open>str\<close> of the value, in \<^verbatim>\<open>IntegerField.to_python\<close>.\<close>

definition is_decimal_tail :: "string \<Rightarrow> bool" where
  "is_decimal_tail t =
     (case t of [] \<Rightarrow> False
      | c # cs \<Rightarrow> c = CHR ''.'' \<and> dropWhile py_isspace (dropWhile (\<lambda>d. d = CHR ''0'') cs) = [])"

fun re_decimal_sub :: "string \<Rightarrow> string" where
  "re_decimal_sub [] = []"
| "re_decimal_sub (c # cs) = (if is_decimal_tail (c # cs) then [] else c # re_decimal_sub cs)"

definition IntegerField_to_python :: "env \<Rightarrow> field \<Rightarrow> pyval \<Rightarrow> pyval res" where
  "IntegerField_to_python e f v =
     (if in_empty_values f v then Inr PyNone
      else (case py_int_of_str (re_decimal_sub (py_str e v)) of
              None \<Rightarrow> Inl Invalid
            | Some n \<Rightarrow> Inr (PyInt n)))"

definition FloatField_to_python :: "env \<Rightarrow> field \<Rightarrow> pyval \<Rightarrow> pyval res" where
  "FloatField_to_python e f v =
     (if in_empty_values f v then Inr PyNone
      else (case (case v of PyStr s \<Rightarrow> float_of_str e s | _ \<Rightarrow> float_of e v) of
              None \<Rightarrow> Inl Invalid
            | Some x \<Rightarrow> Inr (PyFloat x)))"

text \<open>\<^verbatim>\<open>FloatField.validate\<close>: every float of the model is finite.\<close>

definition FloatField_validate :: "field \<Rightarrow> pyval \<Rightarrow> unit res" where
  "FloatField_validate f v = Field_validate f v"

text \<open>
  \<^verbatim>\<open>forms.FileField.to_python\<close>: an uploaded file has a name and a size; an empty name or
  an empty file is refused.
\<close>

definition FileField_to_python :: "field \<Rightarrow> pyval \<Rightarrow> pyval res" where
  "FileField_to_python f v =
     (if in_empty_values f v then Inr PyNone
      else (case v of
              PyFile name sz \<Rightarrow>
                if name = [] then Inl Invalid
                else if sz = 0 then Inl FileEmpty
                else Inr v
            | _ \<Rightarrow> Inl Invalid))"

section \<open>The fields of this package\<close>

subsection \<open>\<^verbatim>\<open>to_python\<close>\<close>

definition ESFM_to_python :: "env \<Rightarrow> field \<Rightarrow> pyval \<Rightarrow> pyval" where
  "ESFM_to_python e f v =
     (if v = PyNone then PyNone
      else if kind f \<in> {RestChoiceField, DateUnitField} then ChoiceField_to_python e f v
      else CharField_to_python e f v)"

definition RestBooleanField_to_python :: "pyval \<Rightarrow> pyval" where
  "RestBooleanField_to_python v =
     (if v = PyNone then PyNone
      else (case v of
              PyStr s \<Rightarrow> if py_lower s \<in> {''false'', ''0'', []} then PyBool False else PyBool (py_bool v)
            | _ \<Rightarrow> PyBool (py_bool v)))"

definition LowerCaseEmailField_to_python :: "pyval \<Rightarrow> pyval" where
  "LowerCaseEmailField_to_python v = (case v of PyStr s \<Rightarrow> PyStr (py_lower s) | _ \<Rightarrow> v)"

text \<open>\<^verbatim>\<open>value[:n]\<close> is defined for strings and lists only.\<close>

definition TruncatedCharField_to_python :: "env \<Rightarrow> field \<Rightarrow> pyval \<Rightarrow> pyval res" where
  "TruncatedCharField_to_python e f v =
     (case (if py_bool v then truncate_length f else None) of
        None \<Rightarrow> Inr (ESFM_to_python e f v)
      | Some n \<Rightarrow>
          (case v of
             PyStr s \<Rightarrow> Inr (ESFM_to_python e f (PyStr (take n s)))
           | PyList xs \<Rightarrow> Inr (ESFM_to_python e f (PyList (take n xs)))
           | _ \<Rightarrow> Inl PyTypeError))"

definition JsonField_to_python :: "env \<Rightarrow> pyval \<Rightarrow> pyval res" where
  "JsonField_to_python e v =
     (case v of
        PyNone \<Rightarrow> Inr v
      | PyList xs \<Rightarrow> Inr v
      | PyDict kvs \<Rightarrow> Inr v
      | PyStr s \<Rightarrow> (case json_loads e s of None \<Rightarrow> Inl JsonNotParsed | Some r \<Rightarrow> Inr r)
      | _ \<Rightarrow> Inl (InvalidJsonValue v))"

text \<open>\<^verbatim>\<open>d.get(key)\<close> of a dictionary.\<close>

definition dict_get :: "pyval \<Rightarrow> string \<Rightarrow> pyval res" where
  "dict_get d k =
     (case d of
        PyDict kvs \<Rightarrow> (case map_of kvs k of None \<Rightarrow> Inr PyNone | Some v \<Rightarrow> Inr v)
      | _ \<Rightarrow> Inl PyTypeError)"

text \<open>\<^verbatim>\<open>[int(item) for item in data]\<close>; the first item that is no integer ends it.\<close>

fun ints_of :: "string list \<Rightarrow> pyval list option" where
  "ints_of [] = Some []"
| "ints_of (x # xs) =
     (case py_int_of_str x of
        None \<Rightarrow> None
      | Some n \<Rightarrow> (case ints_of xs of None \<Rightarrow> None | Some ns \<Rightarrow> Some (PyInt n # ns)))"

definition ArrayField_to_python :: "env \<Rightarrow> field \<Rightarrow> pyval \<Rightarrow> pyval res" where
  "ArrayField_to_python e f v =
     (case v of
        PyNone \<Rightarrow> JsonField_to_python e v
      | PyList xs \<Rightarrow> JsonField_to_python e v
      | PyDict kvs \<Rightarrow> Inl ArrayNotObject
      | PyStr s \<Rightarrow>
          if startswith s ''['' \<or> endswith s '']'' then JsonField_to_python e v
          else if startswith s ''{'' \<and> endswith s ''}'' then Inl ArrayNotObject
          else
            (let data = split_on CHR '','' s in
             case (if py_bool (json_schema f) then dict_get (json_schema f) ''items'' else Inr PyNone) of
               Inl err \<Rightarrow> Inl err
             | Inr item_schema \<Rightarrow>
                 if py_bool item_schema then
                   (case dict_get item_schema ''type'' of
                      Inl err \<Rightarrow> Inl err
                    | Inr ty \<Rightarrow>
                        if py_eq ty (PyStr ''integer'') then
                          (case ints_of data of None \<Rightarrow> Inl ArrayOfIntegers | Some ns \<Rightarrow> Inr (PyList ns))
                        else Inr (PyList (map PyStr data)))
                 else Inr (PyList (map PyStr data)))
      | _ \<Rightarrow> Inl (InvalidJsonValue v))"

definition UrlField_to_python :: "env \<Rightarrow> field \<Rightarrow> pyval \<Rightarrow> pyval" where
  "UrlField_to_python e f v =
     ESFM_to_python e f (case v of PyStr s \<Rightarrow> PyStr (py_strip s) | _ \<Rightarrow> v)"

text \<open>\<^verbatim>\<open>self.to_python(value)\<close>: the method of the field's class.\<close>

definition to_python :: "env \<Rightarrow> field \<Rightarrow> pyval \<Rightarrow> pyval res" where
  "to_python e f v =
     (case kind f of
        RestIntegerField \<Rightarrow> IntegerField_to_python e f v
      | PositiveIntegerField \<Rightarrow> IntegerField_to_python e f v
      | IdField \<Rightarrow> IntegerField_to_python e f v
      | RestFloatField \<Rightarrow> FloatField_to_python e f v
      | TimestampField \<Rightarrow> FloatField_to_python e f v
      | RestBooleanField \<Rightarrow> Inr (RestBooleanField_to_python v)
      | LowerCaseEmailField \<Rightarrow> Inr (LowerCaseEmailField_to_python v)
      | TruncatedCharField \<Rightarrow> TruncatedCharField_to_python e f v
      | JsonField \<Rightarrow> JsonField_to_python e v
      | ArrayField \<Rightarrow> ArrayField_to_python e f v
      | IdArrayField \<Rightarrow> ArrayField_to_python e f v
      | IdSetField \<Rightarrow> ArrayField_to_python e f v
      | UrlField \<Rightarrow> Inr (UrlField_to_python e f v)
      | FileField \<Rightarrow> FileField_to_python f v
      | _ \<Rightarrow> Inr (ESFM_to_python e f v))"

subsection \<open>\<^verbatim>\<open>validate\<close>\<close>

definition ESFM_validate :: "env \<Rightarrow> field \<Rightarrow> pyval \<Rightarrow> unit res" where
  "ESFM_validate e f v =
     (if v = PyNone \<and> required f then Inl Required
      else if kind f \<in> {RestChoiceField, DateUnitField} then ChoiceField_validate e f v
      else Field_validate f v)"

text \<open>
  \<^verbatim>\<open>RegexField.validate\<close> assigns \<^verbatim>\<open>self._match\<close> before it looks at the match, so the
  field object is part of the result.
\<close>

definition RegexField_validate :: "env \<Rightarrow> field \<Rightarrow> pyval \<Rightarrow> unit res \<times> field" where
  "RegexField_validate e f v =
     (case ESFM_validate e f v of
        Inl err \<Rightarrow> (Inl err, f)
      | Inr _ \<Rightarrow>
          (case regex f of
             None \<Rightarrow> (Inr (), f)
           | Some r \<Rightarrow>
               if v \<noteq> PyNone then
                 (let m = re_match r (py_str e v) (flags f); f' = f\<lparr>last_match := m\<rparr>
                  in if m = None then (Inl RegexMismatch, f') else (Inr (), f'))
               else (Inr (), f)))"

definition RestChoiceField_validate :: "env \<Rightarrow> field \<Rightarrow> pyval \<Rightarrow> unit res" where
  "RestChoiceField_validate e f v =
     (if v \<noteq> PyNone \<and> choices f \<noteq> [] \<and> \<not> valid_value e f v then Inl (InvalidChoice v)
      else ESFM_validate e f v)"

definition TimestampField_validate :: "env \<Rightarrow> field \<Rightarrow> pyval \<Rightarrow> unit res" where
  "TimestampField_validate e f v =
     (case FloatField_validate f v of
        Inl err \<Rightarrow> Inl err
      | Inr _ \<Rightarrow>
          if v \<noteq> PyNone then
            (case num_of v of
               None \<Rightarrow> Inl PyTypeError
             | Some x \<Rightarrow> if \<not> in_future f \<and> to_timestamp e (now_us e) utc < x then Inl FutureValue else Inr ())
          else Inr ())"

definition TimezoneField_validate :: "env \<Rightarrow> field \<Rightarrow> pyval \<Rightarrow> unit res" where
  "TimezoneField_validate e f v =
     (case ESFM_validate e f v of
        Inl err \<Rightarrow> Inl err
      | Inr _ \<Rightarrow> if py_bool v \<and> v \<notin> set (map PyStr (all_timezones e)) then Inl (InvalidTimezone (py_str e v))
                 else Inr ())"

text \<open>\<^verbatim>\<open>^[0-9a-f]{6}$\<close>\<close>

definition color_regex :: pattern where
  "color_regex = Seq Bol (Seq (Times 6 (Cls hex_lower)) Eol)"

definition ColorField_validate :: "env \<Rightarrow> field \<Rightarrow> pyval \<Rightarrow> unit res" where
  "ColorField_validate e f v =
     (case ESFM_validate e f v of
        Inl err \<Rightarrow> Inl err
      | Inr _ \<Rightarrow>
          if py_bool v then
            (case v of
               PyStr s \<Rightarrow> if re_match color_regex s 0 = None then Inl (InvalidColor s) else Inr ()
             | _ \<Rightarrow> Inl PyTypeError)
          else Inr ())"

definition JsonField_validate :: "env \<Rightarrow> field \<Rightarrow> pyval \<Rightarrow> unit res" where
  "JsonField_validate e f v =
     (case ESFM_validate e f v of
        Inl err \<Rightarrow> Inl err
      | Inr _ \<Rightarrow>
          if py_bool (json_schema f) \<and> v \<noteq> PyNone then
            (case jsonschema_validate e v (json_schema f) of
               Some msg \<Rightarrow> Inl (SchemaViolation msg)
             | None \<Rightarrow> Inr ())
          else Inr ())"

definition UrlField_validate :: "env \<Rightarrow> field \<Rightarrow> pyval \<Rightarrow> unit res \<times> field" where
  "UrlField_validate e f v =
     (case RegexField_validate e f v of
        (Inl err, f') \<Rightarrow> (Inl err, f')
      | (Inr _, f') \<Rightarrow>
          (case v of
             PyStr s \<Rightarrow> if url_validator e (with_underscore_domain f') s then (Inr (), f') else (Inl InvalidUrl, f')
           | _ \<Rightarrow> (Inr (), f')))"

text \<open>\<^verbatim>\<open>[a-z0-9]*\<close>\<close>

definition hex_regex :: pattern where
  "hex_regex = Star (Cls [(CHR ''a'', CHR ''z''), (CHR ''0'', CHR ''9'')])"

definition HexField_validate :: "env \<Rightarrow> field \<Rightarrow> pyval \<Rightarrow> unit res" where
  "HexField_validate e f v =
     (case ESFM_validate e f v of
        Inl err \<Rightarrow> Inl err
      | Inr _ \<Rightarrow>
          (case v of
             PyStr s \<Rightarrow> if re_match hex_regex s 0 = None then Inl InvalidHex else Inr ()
           | _ \<Rightarrow> Inr ()))"

text \<open>
  \<^verbatim>\<open>FileField.validate\<close>.  A value that reaches it is \<^verbatim>\<open>None\<close> or passed
  \<^verbatim>\<open>forms.FileField.to_python\<close>, so it has a name and a size.
\<close>

definition FileField_validate :: "field \<Rightarrow> pyval \<Rightarrow> unit res" where
  "FileField_validate f v =
     (case Field_validate f v of
        Inl err \<Rightarrow> Inl err
      | Inr _ \<Rightarrow>
          (case v of
             PyFile name sz \<Rightarrow>
               (let ext = py_lower (drop 1 (splitext_ext name)) in
                if valid_extensions f \<noteq> None \<and> py_bool v \<and> ext \<notin> set (the (valid_extensions f))
                then Inl (FileTypeError ext (the (valid_extensions f)))
                else if max_size f \<noteq> None \<and> py_bool v \<and> the (max_size f) < sz
                then Inl (FileSizeError (the (max_size f)) sz)
                else Inr ())
           | _ \<Rightarrow> if (valid_extensions f \<noteq> None \<or> max_size f \<noteq> None) \<and> py_bool v then Inl PyTypeError else Inr ()))"

text \<open>\<^verbatim>\<open>self.validate(value)\<close>: the method of the field's class, and the field after it.\<close>

definition validate :: "env \<Rightarrow> field \<Rightarrow> pyval \<Rightarrow> unit res \<times> field" where
  "validate e f v =
     (case kind f of
        RegexField \<Rightarrow> RegexField_validate e f v
      | UUIDField \<Rightarrow> RegexField_validate e f v
      | UrlField \<Rightarrow> UrlField_validate e f v
      | RestChoiceField \<Rightarrow> (RestChoiceField_validate e f v, f)
      | DateUnitField \<Rightarrow> (RestChoiceField_validate e f v, f)
      | RestIntegerField \<Rightarrow> (Field_validate f v, f)
      | PositiveIntegerField \<Rightarrow> (Field_validate f v, f)
      | IdField \<Rightarrow> (Field_validate f v, f)
      | RestFloatField \<Rightarrow> (FloatField_validate f v, f)
      | TimestampField \<Rightarrow> (TimestampField_validate e f v, f)
      | TimezoneField \<Rightarrow> (TimezoneField_validate e f v, f)
      | ColorField \<Rightarrow> (ColorField_validate e f v, f)
      | JsonField \<Rightarrow> (JsonField_validate e f v, f)
      | ArrayField \<Rightarrow> (JsonField_validate e f v, f)
      | IdArrayField \<Rightarrow> (JsonField_validate e f v, f)
      | IdSetField \<Rightarrow> (JsonField_validate e f v, f)
      | HexField \<Rightarrow> (HexField_validate e f v, f)
      | LowerCaseEmailField \<Rightarrow> (Field_validate f v, f)
      | FileField \<Rightarrow> (FileField_validate f v, f)
      | _ \<Rightarrow> (ESFM_validate e f v, f))"

subsection \<open>\<^verbatim>\<open>clean\<close>\<close>

text \<open>\<^verbatim>\<open>forms.Field.clean\<close>: coerce, validate, run the validators, return the coerced value.\<close>

definition Field_clean :: "env \<Rightarrow> field \<Rightarrow> pyval \<Rightarrow> pyval res \<times> field" where
  "Field_clean e f v =
     (case to_python e f v of
        Inl err \<Rightarrow> (Inl err, f)
      | Inr value \<Rightarrow>
          (case validate e f value of
             (Inl err, f') \<Rightarrow> (Inl err, f')
           | (Inr _, f') \<Rightarrow>
               (case Field_run_validators e f' value of
                  Inl err \<Rightarrow> (Inl err, f')
                | Inr _ \<Rightarrow> (Inr value, f'))))"

definition InitialFixMixin_clean :: "env \<Rightarrow> field \<Rightarrow> pyval \<Rightarrow> pyval res \<times> field" where
  "InitialFixMixin_clean e f v =
     (case Field_clean e f v of
        (Inl err, f') \<Rightarrow> (Inl err, f')
      | (Inr value, f') \<Rightarrow> (Inr (if value = PyNone then initial f' else value), f'))"

definition EmptyStringFixMixing_clean :: "env \<Rightarrow> field \<Rightarrow> pyval \<Rightarrow> pyval res \<times> field" where
  "EmptyStringFixMixing_clean e f v =
     (if v = PyNone then
        (case to_python e f v of
           Inl err \<Rightarrow> (Inl err, f)
         | Inr value \<Rightarrow>
             (case validate e f value of
                (Inl err, f') \<Rightarrow> (Inl err, f')
              | (Inr _, f') \<Rightarrow> (Inr (initial f'), f')))
      else Field_clean e f v)"

definition TimestampField_clean :: "env \<Rightarrow> field \<Rightarrow> pyval \<Rightarrow> pyval res \<times> field" where
  "TimestampField_clean e f v =
     (case InitialFixMixin_clean e f v of
        (Inl err, f') \<Rightarrow> (Inl err, f')
      | (Inr value, f') \<Rightarrow>
          if py_eq value (PyInt 0) then (Inr (datetime 1970 1 1 0 0 0 0 utc), f')
          else if value \<noteq> PyNone then
            (case float_of e value of
               None \<Rightarrow> (Inl PyTypeError, f')
             | Some x \<Rightarrow>
                 (case utcfromtimestamp e x of
                    Inl err \<Rightarrow> (Inl err, f')
                  | Inr t \<Rightarrow> (make_aware (PyDatetime t None) utc, f')))
          else (Inr value, f'))"

text \<open>
  \<^verbatim>\<open>isinstance(value, self.base_type)\<close>: \<^verbatim>\<open>base_type\<close> is \<^verbatim>\<open>date\<close> in
  \<^verbatim>\<open>DateField\<close> and \<^verbatim>\<open>datetime\<close>, a subclass of \<^verbatim>\<open>date\<close>, in the other two.
\<close>

definition is_base_type :: "kind \<Rightarrow> pyval \<Rightarrow> bool" where
  "is_base_type k v =
     (case v of PyDatetime t tz \<Rightarrow> True | PyDate d \<Rightarrow> k = DateField | _ \<Rightarrow> False)"

definition DateTimeField_clean :: "env \<Rightarrow> field \<Rightarrow> pyval \<Rightarrow> pyval res \<times> field" where
  "DateTimeField_clean e f v =
     (case EmptyStringFixMixing_clean e f v of
        (Inl err, f') \<Rightarrow> (Inl err, f')
      | (Inr value, f') \<Rightarrow>
          if value \<noteq> PyNone \<and> \<not> is_base_type (kind f') value then
            (case (case value of PyStr s \<Rightarrow> strptime e s (mask f') | _ \<Rightarrow> None) of
               None \<Rightarrow> (Inl (InvalidFormat (mask f')), f')
             | Some (t, tz) \<Rightarrow> (make_aware (PyDatetime t tz) utc, f'))
          else (Inr value, f'))"

text \<open>\<^verbatim>\<open>DateField.clean\<close> and \<^verbatim>\<open>MonthField.clean\<close> have the same body.\<close>

definition DateField_clean :: "env \<Rightarrow> field \<Rightarrow> pyval \<Rightarrow> pyval res \<times> field" where
  "DateField_clean e f v =
     (case DateTimeField_clean e f v of
        (Inl err, f') \<Rightarrow> (Inl err, f')
      | (Inr value, f') \<Rightarrow> (Inr (case value of PyDatetime t tz \<Rightarrow> date_of t | _ \<Rightarrow> value), f'))"

text \<open>\<^verbatim>\<open>[id_field.clean(item) for item in res]\<close>; the first error ends it.\<close>

fun clean_ids :: "env \<Rightarrow> field \<Rightarrow> pyval list \<Rightarrow> pyval list res" where
  "clean_ids e id_field [] = Inr []"
| "clean_ids e id_field (item # items) =
     (case fst (InitialFixMixin_clean e id_field item) of
        Inl err \<Rightarrow> Inl err
      | Inr x \<Rightarrow> (case clean_ids e id_field items of Inl err \<Rightarrow> Inl err | Inr xs \<Rightarrow> Inr (x # xs)))"

definition IdArrayField_clean :: "env \<Rightarrow> field \<Rightarrow> pyval \<Rightarrow> pyval res \<times> field" where
  "IdArrayField_clean e f v =
     (case EmptyStringFixMixing_clean e f (case v of PySet xs \<Rightarrow> PyList xs | _ \<Rightarrow> v) of
        (Inl err, f') \<Rightarrow> (Inl err, f')
      | (Inr res, f') \<Rightarrow>
          (case res of
             PyList items \<Rightarrow>
               (case clean_ids e (IdField_init e IdField no_kwargs) items of
                  Inl err \<Rightarrow> (Inl err, f')
                | Inr ids \<Rightarrow> (Inr (PyList ids), f'))
           | _ \<Rightarrow> (Inr res, f')))"

definition IdSetField_clean :: "env \<Rightarrow> field \<Rightarrow> pyval \<Rightarrow> pyval res \<times> field" where
  "IdSetField_clean e f v =
     (case IdArrayField_clean e f v of
        (Inl err, f') \<Rightarrow> (Inl err, f')
      | (Inr res, f') \<Rightarrow> (Inr (case res of PyList xs \<Rightarrow> PySet (remdups xs) | _ \<Rightarrow> res), f'))"

definition LowerCaseEmailField_clean :: "env \<Rightarrow> field \<Rightarrow> pyval \<Rightarrow> pyval res \<times> field" where
  "LowerCaseEmailField_clean e f v =
     (if v \<noteq> PyNone then Field_clean e f v
      else if required f then (Inl Required, f)
      else (Inr (initial f), f))"

text \<open>
  \<^verbatim>\<open>forms.FileField.clean(data, initial)\<close>: \<^verbatim>\<open>False\<close> clears an optional field; without
  data the initial value, when there is one, is the result.
\<close>

definition forms_FileField_clean :: "env \<Rightarrow> field \<Rightarrow> pyval \<Rightarrow> pyval \<Rightarrow> pyval res \<times> field" where
  "forms_FileField_clean e f data init =
     (if data = PyBool False \<and> \<not> required f then (Inr (PyBool False), f)
      else (let data1 = (if data = PyBool False then PyNone else data)
            in if \<not> py_bool data1 \<and> py_bool init then (Inr init, f)
               else Field_clean e f data1))"

definition FileField_clean :: "env \<Rightarrow> field \<Rightarrow> pyval \<Rightarrow> pyval \<Rightarrow> pyval res \<times> field" where
  "FileField_clean e f data init =
     forms_FileField_clean e f data (if init \<noteq> PyNone then init else initial f)"

text \<open>
  \<^verbatim>\<open>field.clean(value)\<close>: the method of the field's class.  Its result is the value
  returned or the error raised, and the field object after the call.
\<close>

definition clean :: "env \<Rightarrow> field \<Rightarrow> pyval \<Rightarrow> pyval res \<times> field" where
  "clean e f v =
     (case kind f of
        RestIntegerField \<Rightarrow> InitialFixMixin_clean e f v
      | PositiveIntegerField \<Rightarrow> InitialFixMixin_clean e f v
      | IdField \<Rightarrow> InitialFixMixin_clean e f v
      | RestFloatField \<Rightarrow> InitialFixMixin_clean e f v
      | TimestampField \<Rightarrow> TimestampField_clean e f v
      | DateTimeField \<Rightarrow> DateTimeField_clean e f v
      | DateField \<Rightarrow> DateField_clean e f v
      | MonthField \<Rightarrow> DateField_clean e f v
      | IdArrayField \<Rightarrow> IdArrayField_clean e f v
      | IdSetField \<Rightarrow> IdSetField_clean e f v
      | LowerCaseEmailField \<Rightarrow> LowerCaseEmailField_clean e f v
      | FileField \<Rightarrow> FileField_clean e f v PyNone
      | _ \<Rightarrow> EmptyStringFixMixing_clean e f v)"

text \<open>The value a call of \<^verbatim>\<open>clean\<close> returns, or the error it raises.\<close>

definition cleaned :: "env \<Rightarrow> field \<Rightarrow> pyval \<Rightarrow> pyval res" where
  "cleaned e f v = fst (clean e f v)"

section \<open>Constructing and calling a field\<close>

text \<open>\<^verbatim>\<open>K(**kwargs)\<close> for a field class \<open>K\<close>; the masks are the defaults of the three date classes.\<close>

definition new_field :: "env \<Rightarrow> kind \<Rightarrow> kwargs \<Rightarrow> field res" where
  "new_field e k kw =
     (case k of
        RegexField \<Rightarrow> Inr (RegexField_init k kw)
      | UUIDField \<Rightarrow> Inr (UUIDField_init kw)
      | UrlField \<Rightarrow> Inr (UrlField_init kw)
      | RestChoiceField \<Rightarrow> Inr (RestChoiceField_init k kw)
      | DateUnitField \<Rightarrow> Inr (DateUnitField_init kw)
      | RestIntegerField \<Rightarrow> Inr (IntegerField_init k kw)
      | RestFloatField \<Rightarrow> Inr (IntegerField_init k kw)
      | PositiveIntegerField \<Rightarrow> Inr (PositiveIntegerField_init k kw)
      | IdField \<Rightarrow> Inr (IdField_init e k kw)
      | TimestampField \<Rightarrow> TimestampField_init e kw
      | DateTimeField \<Rightarrow> Inr (DateTimeField_init k ''%Y-%m-%dT%H:%M:%S'' kw)
      | DateField \<Rightarrow> Inr (DateTimeField_init k ''%Y-%m-%d'' kw)
      | MonthField \<Rightarrow> Inr (DateTimeField_init k ''%Y-%m'' kw)
      | TruncatedCharField \<Rightarrow> TruncatedCharField_init kw
      | JsonField \<Rightarrow> Inr (JsonField_init k kw)
      | ArrayField \<Rightarrow> Inr (ArrayField_init k kw)
      | IdArrayField \<Rightarrow> Inr (ArrayField_init k kw)
      | IdSetField \<Rightarrow> Inr (ArrayField_init k kw)
      | FileField \<Rightarrow> FileField_init kw
      | _ \<Rightarrow> Inr (Field_init k kw))"

text \<open>\<^verbatim>\<open>K(**kwargs).clean(v)\<close>\<close>

definition new_clean :: "env \<Rightarrow> kind \<Rightarrow> kwargs \<Rightarrow> pyval \<Rightarrow> pyval res" where
  "new_clean e k kw v = (case new_field e k kw of Inl err \<Rightarrow> Inl err | Inr f \<Rightarrow> cleaned e f v)"

section \<open>Notions of the specification\<close>

text \<open>
  A range error is the \<^verbatim>\<open>ValidationError\<close> of the validators whose errors are all of
  the codes \<^verbatim>\<open>min_value\<close> and \<^verbatim>\<open>max_value\<close>.
\<close>

definition is_bound_error :: "error \<Rightarrow> bool" where
  "is_bound_error err = (case err of MinValueError m x \<Rightarrow> True | MaxValueError m x \<Rightarrow> True | _ \<Rightarrow> False)"

definition range_error :: "pyval res \<Rightarrow> bool" where
  "range_error r = (case r of Inl (Errors es) \<Rightarrow> es \<noteq> [] \<and> list_all is_bound_error es | _ \<Rightarrow> False)"

text \<open>
  The textual form of a UUID: groups of 8, 4, 4, 4 and 12 lowercase hexadecimal digits,
  joined by hyphens.
\<close>

definition is_lower_hex :: "char \<Rightarrow> bool" where
  "is_lower_hex c = (let n = (of_char c :: nat) in (48 \<le> n \<and> n \<le> 57) \<or> (97 \<le> n \<and> n \<le> 102))"

definition is_uuid :: "string \<Rightarrow> bool" where
  "is_uuid s =
     (map length (split_on CHR ''-'' s) = [8, 4, 4, 4, 12] \<and> list_all (list_all is_lower_hex) (split_on CHR ''-'' s))"

text \<open>
  What the proofs use of the arithmetic of doubles: conversion of an integer of at most 53
  bits is exact, and a result between 0 and \<open>2^31\<close> is rounded by at most \<open>2^-22\<close> (the
  spacing of the doubles below \<open>2^31\<close> is at most \<open>2^-22\<close>).
\<close>

definition double_rounding :: "(rat \<Rightarrow> rat) \<Rightarrow> bool" where
  "double_rounding r =
     ((\<forall>n :: int. \<bar>n\<bar> \<le> 2 ^ 53 \<longrightarrow> r (of_int n) = of_int n) \<and>
      (\<forall>z. 0 \<le> z \<and> z \<le> 2 ^ 31 \<longrightarrow> \<bar>r z - z\<bar> \<le> 1 / 2 ^ 22))"

text \<open>The field classes whose \<^verbatim>\<open>clean\<close> passes the initial value on as it is.\<close>

definition passes_initial :: "kind \<Rightarrow> bool" where
  "passes_initial k =
     (k \<notin> {TimestampField, DateTimeField, DateField, MonthField, IdArrayField, IdSetField, FileField})"

text \<open>
  An environment to evaluate in: exact arithmetic, the clock at 2023-11-14T22:13:20Z, a JSON
  parser that knows one document, a schema validator that accepts, no time zones but UTC.
\<close>

definition env0 :: env where
  "env0 = \<lparr> now_us = 1700000000000000, rnd = (\<lambda>x. x), str_of = (\<lambda>v. []), float_of_str = (\<lambda>s. None),
     json_loads = (\<lambda>s. if s = ''[1,2,3]'' then Some (PyList [PyInt 1, PyInt 2, PyInt 3]) else None),
     jsonschema_validate = (\<lambda>v s. None), strptime = (\<lambda>s m. None), all_timezones = [''UTC''],
     url_validator = (\<lambda>u s. False), email_validator = (\<lambda>v. False), ID_FIELD_MAX_VALUE = None \<rparr>"

text \<open>
  The same form read from left to right: a string made of groups of lowercase hexadecimal
  digits of the given lengths, with a hyphen after every group but the last.
\<close>

fun grouped :: "nat list \<Rightarrow> string \<Rightarrow> bool" where
  "grouped [] s = False"
| "grouped [n] s = (length s = n \<and> list_all is_lower_hex s)"
| "grouped (n # m # ns) s =
     (n < length s \<and> list_all is_lower_hex (take n s) \<and> s ! n = CHR ''-'' \<and> grouped (m # ns) (drop (Suc n) s))"

section \<open>Auxiliary facts\<close>

lemmas field_class_defs = esfm_def empty_values_def in_empty_values_def py_eq_def validators_def

lemma star_iter_nonempty: "star_iter k f st \<noteq> []"
  by (cases k) simp_all

lemma hex_regex_always_matches: "re_match hex_regex s fl \<noteq> None"
  by (simp add: re_match_def hex_regex_def star_iter_nonempty split: list.splits)

section \<open>The hex field\<close>

text \<open>
  Claim C6: for the hex field, \<^verbatim>\<open>clean\<close> succeeds on a string exactly when every character
  of it is a lowercase hexadecimal character, and raises a pattern-mismatch error for any
  string with a character outside that set.

  The code does not do this.  \<^verbatim>\<open>HexField.validate\<close> tests
  \<^verbatim>\<open>re.match(r'[a-z0-9]*', value)\<close>; the pattern is not anchored at the end and is
  satisfied by the empty prefix, so the test never fails (\<open>hex_regex_always_matches\<close>).
  However the field is configured, the string \<^verbatim>\<open>XYZ!\<close>, which has no hexadecimal
  character at all, is returned as the cleaned value.
\<close>

theorem C6_hex_field_accepts_non_hex:
  "new_clean e HexField kw (PyStr ''XYZ!'') = Inr (PyStr ''XYZ!'')"
  using hex_regex_always_matches [of "''XYZ!''" 0]
  by (simp add: new_clean_def new_field_def cleaned_def clean_def Field_init_def
      EmptyStringFixMixing_clean_def Field_clean_def to_python_def ESFM_to_python_def CharField_to_python_def
      validate_def HexField_validate_def ESFM_validate_def Field_validate_def Field_run_validators_def
      run_validator_def py_str_def py_strip_def py_isspace_def field_class_defs)

lemmas pipeline_defs = cleaned_def clean_def EmptyStringFixMixing_clean_def Field_clean_def
  to_python_def validate_def ESFM_validate_def Field_validate_def Field_run_validators_def run_validator_def

lemma no_kwargs_simps:
  "kw_required no_kwargs = True" "kw_initial no_kwargs = None" "kw_flags no_kwargs = 0"
  "kw_in_future no_kwargs = True" "kw_regex no_kwargs = None"
  by (simp_all add: no_kwargs_def)

section \<open>The boolean field\<close>

lemma bool_field_value:
  assumes "v \<noteq> PyNone"
  shows "cleaned e (Field_init RestBooleanField kw) v = Inr (RestBooleanField_to_python v)"
  using assms
  by (cases v) (auto simp add: pipeline_defs Field_init_def RestBooleanField_to_python_def
      py_str_def field_class_defs)

text \<open>
  Claim C2: for the boolean field, \<^verbatim>\<open>clean\<close> maps the strings \<^verbatim>\<open>false\<close>, \<^verbatim>\<open>0\<close> and
  the empty string, in any letter case, to false; an absent value to none, or to the
  required error when the field is required; and every other input to its truth value, so
  that \<^verbatim>\<open>true\<close>, \<^verbatim>\<open>1\<close> and \<^verbatim>\<open>anything_else\<close> give true.

  The theorem holds for every configuration of \<^verbatim>\<open>required\<close> and \<^verbatim>\<open>initial\<close>.  An
  absent value is answered by the initial value of the field, which is none when no initial
  value is configured.
\<close>

theorem C2_boolean_coercion_table:
  "(py_lower s \<in> {''false'', ''0'', []} \<longrightarrow> new_clean e RestBooleanField kw (PyStr s) = Inr (PyBool False))
   \<and> new_clean e RestBooleanField kw PyNone =
       (if kw_required kw then Inl Required else Inr (case kw_initial kw of None \<Rightarrow> PyNone | Some i \<Rightarrow> i))
   \<and> (v \<noteq> PyNone \<and> (\<forall>t. v = PyStr t \<longrightarrow> py_lower t \<notin> {''false'', ''0'', []})
        \<longrightarrow> new_clean e RestBooleanField kw v = Inr (PyBool (py_bool v)))
   \<and> new_clean e RestBooleanField kw (PyStr ''true'') = Inr (PyBool True)
   \<and> new_clean e RestBooleanField kw (PyStr ''1'') = Inr (PyBool True)
   \<and> new_clean e RestBooleanField kw (PyStr ''anything_else'') = Inr (PyBool True)"
proof -
  have nc: "\<And>v. v \<noteq> PyNone \<Longrightarrow> new_clean e RestBooleanField kw v = Inr (RestBooleanField_to_python v)"
    by (simp add: new_clean_def new_field_def bool_field_value)
  have none: "new_clean e RestBooleanField kw PyNone =
       (if kw_required kw then Inl Required else Inr (case kw_initial kw of None \<Rightarrow> PyNone | Some i \<Rightarrow> i))"
    by (simp add: new_clean_def new_field_def pipeline_defs Field_init_def RestBooleanField_to_python_def
        field_class_defs)
  have other: "v \<noteq> PyNone \<and> (\<forall>t. v = PyStr t \<longrightarrow> py_lower t \<notin> {''false'', ''0'', []})
        \<longrightarrow> new_clean e RestBooleanField kw v = Inr (PyBool (py_bool v))"
    by (cases v) (auto simp add: nc RestBooleanField_to_python_def)
  show ?thesis
    using none other
    by (simp add: nc RestBooleanField_to_python_def py_lower_def lower_char_def)
qed

theorem C2_boolean_coercion_table_witness:
  "new_clean env0 RestBooleanField no_kwargs (PyStr ''FALSE'') = Inr (PyBool False)
   \<and> new_clean env0 RestBooleanField no_kwargs PyNone = Inl Required
   \<and> new_clean env0 RestBooleanField (no_kwargs\<lparr>kw_required := False\<rparr>) PyNone = Inr PyNone
   \<and> new_clean env0 RestBooleanField no_kwargs (PyList [PyInt 0]) = Inr (PyBool True)
   \<and> new_clean env0 RestBooleanField no_kwargs (PyInt 0) = Inr (PyBool False)"
proof -
  have a: "py_lower ''FALSE'' \<in> {''false'', ''0'', []}"
    by code_simp
  note t1 = C2_boolean_coercion_table [of "''FALSE''" env0 no_kwargs "PyList [PyInt 0]"]
  note t2 = C2_boolean_coercion_table [of "''0''" env0 "no_kwargs\<lparr>kw_required := False\<rparr>" "PyInt 0"]
  note t3 = C2_boolean_coercion_table [of "''0''" env0 no_kwargs "PyInt 0"]
  have "new_clean env0 RestBooleanField no_kwargs (PyStr ''FALSE'') = Inr (PyBool False)"
    using t1 a by blast
  moreover have "new_clean env0 RestBooleanField no_kwargs PyNone = Inl Required"
    using t1 by (simp add: no_kwargs_simps)
  moreover have "new_clean env0 RestBooleanField (no_kwargs\<lparr>kw_required := False\<rparr>) PyNone = Inr PyNone"
    using t2 by (simp add: no_kwargs_simps)
  moreover have "new_clean env0 RestBooleanField no_kwargs (PyList [PyInt 0]) = Inr (PyBool True)"
    using t1 by simp
  moreover have "new_clean env0 RestBooleanField no_kwargs (PyInt 0) = Inr (PyBool False)"
    using t3 by simp
  ultimately show ?thesis by simp
qed

end
